theory Spec2Isabelle
  imports Main "HOL-Library.Word" "HOL-Library.AList"
begin

unbundle bit_operations_syntax

section \<open>The ItemDB decoder of itemdb.py\<close>

subsection \<open>Data\<close>

text \<open>
  A byte source is the list of the bytes not yet read. A Python \<open>str\<close> is the list of its
  code points (\<open>ord\<close> of each character), every one below \<open>0x110000\<close>. The integers the
  decoder produces come from \<open>int.from_bytes(..., "little")\<close> and from \<open>range\<close>, so they
  are never negative and are natural numbers here; the \<open>size\<close> and \<open>version\<close> of a
  \<open>_Field\<close> are written by the template's author and are integers (the default size is
  \<open>-1\<close>).
\<close>

type_synonym byte = "8 word"
type_synonym buffer = "byte list"
type_synonym pystr = "nat list"

definition wf_str :: "pystr \<Rightarrow> bool" where
  "wf_str s = (\<forall>c \<in> set s. c < 0x110000)"

text \<open>The frozen dataclass \<open>_Field\<close>.\<close>

record Field =
  f_size :: int
  f_version :: int
  f_xor_key :: "pystr option"

definition mk_Field :: "int \<Rightarrow> int \<Rightarrow> pystr option \<Rightarrow> Field" where
  "mk_Field sz ver key = \<lparr>f_size = sz, f_version = ver, f_xor_key = key\<rparr>"

text \<open>
  An annotation is looked at in three ways only: \<open>t == int\<close>, \<open>t == str\<close>, \<open>t is None\<close>,
  and, when all three fail, \<open>t.__name__\<close>. \<open>Ann_other\<close> carries that name when the
  annotation object has one (a class such as \<open>float\<close> has, a string annotation such as
  \<open>"int"\<close> has not).
\<close>

datatype annotation = Ann_int | Ann_str | Ann_None | Ann_other "string option"

text \<open>
  A template is the ordered \<open>__annotations__\<close> of the class together with the \<open>_Field\<close>
  each name is bound to. The names are the keys of a dictionary, hence distinct.
\<close>

type_synonym template = "(string \<times> annotation \<times> Field) list"

text \<open>What an attribute of an item can hold.\<close>

datatype pyval = PyNone | PyInt nat | PyStr pystr | PyField Field

type_synonym item = "(string \<times> pyval) list"

text \<open>
  The exceptions that leave \<open>parse\<close>. Two are the \<open>ValueError\<close>s the source raises itself;
  the others come from the built-ins it calls: \<open>bytes.decode\<close>, \<open>chr\<close>, \<open>%\<close> and attribute
  access.
\<close>

datatype error =
    ValueError_unknown_field_type string string
  | ValueError_offset_mismatch nat pyval nat
  | ValueError_chr nat
  | UnicodeDecodeError
  | ZeroDivisionError
  | AttributeError string

subsection \<open>Reading the source\<close>

text \<open>
  \<open>buffer.read(size)\<close> of a binary stream (\<open>open(path, "rb")\<close>, \<open>io.BytesIO\<close>) returns at
  most \<open>size\<close> bytes, fewer when the stream ends first, and everything up to the end when
  \<open>size\<close> is negative, as the default \<open>-1\<close> of \<open>_Field.size\<close> is. It never raises at the
  end of the stream.
\<close>

definition read :: "buffer \<Rightarrow> int \<Rightarrow> byte list \<times> buffer" where
  "read buffer sz =
     (if sz < 0 then (buffer, [])
      else (take (nat sz) buffer, drop (nat sz) buffer))"

text \<open>\<open>int.from_bytes(bs, "little")\<close>; the empty byte string gives 0.\<close>

fun from_bytes_little :: "byte list \<Rightarrow> nat" where
  "from_bytes_little [] = 0"
| "from_bytes_little (b # bs) = unat b + 256 * from_bytes_little bs"

definition parse_int :: "buffer \<Rightarrow> int \<Rightarrow> nat \<times> buffer" where
  "parse_int buffer sz = (case read buffer sz of (bs, rest) \<Rightarrow> (from_bytes_little bs, rest))"

text \<open>
  \<open>bytes.decode("utf-8")\<close> with the default strict error handler accepts the well-formed
  byte sequences of the Unicode standard: no overlong form, no surrogate, nothing above
  \<open>U+10FFFF\<close>, no truncated sequence. \<open>None\<close> stands for the \<open>UnicodeDecodeError\<close> it
  raises on anything else.
\<close>

definition cont :: "byte \<Rightarrow> bool" where
  "cont b = (0x80 \<le> b \<and> b \<le> 0xBF)"

definition low6 :: "byte \<Rightarrow> nat" where
  "low6 b = unat b mod 64"

fun utf8_decode :: "byte list \<Rightarrow> pystr option" where
  "utf8_decode [] = Some []"
| "utf8_decode (b0 # bs) =
     (if b0 < 0x80 then map_option (Cons (unat b0)) (utf8_decode bs)
      else if 0xC2 \<le> b0 \<and> b0 \<le> 0xDF then
        (case bs of
           b1 # r \<Rightarrow>
             if cont b1 then
               map_option (Cons ((unat b0 mod 32) * 64 + low6 b1)) (utf8_decode r)
             else None
         | _ \<Rightarrow> None)
      else if 0xE0 \<le> b0 \<and> b0 \<le> 0xEF then
        (case bs of
           b1 # b2 # r \<Rightarrow>
             if cont b1 \<and> cont b2 \<and> (b0 = 0xE0 \<longrightarrow> 0xA0 \<le> b1) \<and> (b0 = 0xED \<longrightarrow> b1 \<le> 0x9F) then
               map_option (Cons ((unat b0 mod 16) * 4096 + low6 b1 * 64 + low6 b2))
                 (utf8_decode r)
             else None
         | _ \<Rightarrow> None)
      else if 0xF0 \<le> b0 \<and> b0 \<le> 0xF4 then
        (case bs of
           b1 # b2 # b3 # r \<Rightarrow>
             if cont b1 \<and> cont b2 \<and> cont b3 \<and> (b0 = 0xF0 \<longrightarrow> 0x90 \<le> b1)
                \<and> (b0 = 0xF4 \<longrightarrow> b1 \<le> 0x8F) then
               map_option
                 (Cons ((unat b0 mod 8) * 262144 + low6 b1 * 4096 + low6 b2 * 64 + low6 b3))
                 (utf8_decode r)
             else None
         | _ \<Rightarrow> None)
      else None)"

text \<open>\<open>_parse_str\<close>: a two-byte length, then that many bytes, decoded as UTF-8.\<close>

definition parse_str :: "buffer \<Rightarrow> error + (pystr \<times> buffer)" where
  "parse_str buffer =
     (case parse_int buffer 2 of
        (len, b1) \<Rightarrow>
          (case read b1 (int len) of
             (bs, b2) \<Rightarrow>
               (case utf8_decode bs of
                  None \<Rightarrow> Inl UnicodeDecodeError
                | Some s \<Rightarrow> Inr (s, b2))))"

subsection \<open>The XOR transform\<close>

text \<open>
  \<open>chr(n)\<close> raises \<open>ValueError\<close> unless \<open>n\<close> is in \<open>range(0x110000)\<close>; \<open>%\<close> raises
  \<open>ZeroDivisionError\<close> when the key is empty. Python's \<open>%\<close> with a positive modulus is
  never negative, as \<open>mod\<close> on \<open>int\<close>.
\<close>

definition chr :: "nat \<Rightarrow> error + nat" where
  "chr n = (if n < 0x110000 then Inr n else Inl (ValueError_chr n))"

fun xor_loop :: "pystr \<Rightarrow> pystr \<Rightarrow> int \<Rightarrow> nat list \<Rightarrow> pystr \<Rightarrow> error + pystr" where
  "xor_loop str key offset [] result = Inr result"
| "xor_loop str key offset (i # is) result =
     (if length key = 0 then Inl ZeroDivisionError
      else
        (case chr ((str ! i) XOR (key ! nat ((int i + offset) mod int (length key)))) of
           Inl e \<Rightarrow> Inl e
         | Inr c \<Rightarrow> xor_loop str key offset is (result @ [c])))"

definition xor_str :: "pystr \<Rightarrow> pystr \<Rightarrow> int \<Rightarrow> error + pystr" where
  "xor_str str key offset = xor_loop str key offset [0..<length str] []"

text \<open>The code point the loop appends at position \<open>i\<close>, before \<open>chr\<close>.\<close>

definition xor_char :: "pystr \<Rightarrow> pystr \<Rightarrow> int \<Rightarrow> nat \<Rightarrow> nat" where
  "xor_char str key offset i = (str ! i) XOR (key ! nat ((int i + offset) mod int (length key)))"

subsection \<open>Records and the container\<close>

text \<open>
  The body of the inner loop of \<open>parse\<close> up to \<open>setattr\<close>: the value of one field and the
  source after it. The \<open>_Field\<close> is the one the fresh item holds under the name, which is
  the template's.
\<close>

definition parse_field ::
  "nat \<Rightarrow> nat \<Rightarrow> string \<Rightarrow> annotation \<Rightarrow> Field \<Rightarrow> buffer \<Rightarrow> error + (pyval \<times> buffer)" where
  "parse_field version i k t f buffer =
     (if f_version f > int version then Inr (PyNone, buffer)
      else if t = Ann_int then
        (case parse_int buffer (f_size f) of (n, b) \<Rightarrow> Inr (PyInt n, b))
      else if t = Ann_str then
        (case parse_str buffer of
           Inl e \<Rightarrow> Inl e
         | Inr (s, b) \<Rightarrow>
             if f_xor_key f \<noteq> None \<and> version \<ge> 3 then
               (case xor_str s (the (f_xor_key f)) (int i) of
                  Inl e \<Rightarrow> Inl e
                | Inr s' \<Rightarrow> Inr (PyStr s', b))
             else Inr (PyStr s, b))
      else if t = Ann_None then
        (if f_size f > 0 then
           (case parse_int buffer (f_size f) of (n, b) \<Rightarrow> Inr (PyNone, b))
         else
           (case parse_str buffer of Inl e \<Rightarrow> Inl e | Inr (s, b) \<Rightarrow> Inr (PyNone, b)))
      else
        (case t of
           Ann_other (Some nm) \<Rightarrow> Inl (ValueError_unknown_field_type k nm)
         | _ \<Rightarrow> Inl (AttributeError ''__name__'')))"

text \<open>\<open>template()\<close>: every attribute starts as its \<open>_Field\<close>.\<close>

definition new_item :: "template \<Rightarrow> item" where
  "new_item tmpl = map (\<lambda>(k, t, f). (k, PyField f)) tmpl"

text \<open>The inner loop, over the annotations in order; \<open>setattr\<close> overwrites in place.\<close>

fun parse_fields :: "nat \<Rightarrow> nat \<Rightarrow> template \<Rightarrow> item \<Rightarrow> buffer \<Rightarrow> error + (item \<times> buffer)" where
  "parse_fields version i [] item buffer = Inr (item, buffer)"
| "parse_fields version i ((k, t, f) # rest) item buffer =
     (case parse_field version i k t f buffer of
        Inl e \<Rightarrow> Inl e
      | Inr (v, b) \<Rightarrow> parse_fields version i rest (AList.update k v item) b)"

text \<open>
  One pass of the outer loop: decode the fields, then compare \<open>i\<close> with \<open>item.id\<close>. An
  item without an attribute \<open>id\<close> raises \<open>AttributeError\<close>; anything that is not the
  integer \<open>i\<close> (also \<open>None\<close> and strings) differs from \<open>i\<close>.
\<close>

definition parse_item :: "nat \<Rightarrow> nat \<Rightarrow> template \<Rightarrow> buffer \<Rightarrow> error + (item \<times> buffer)" where
  "parse_item version i tmpl buffer =
     (case parse_fields version i tmpl (new_item tmpl) buffer of
        Inl e \<Rightarrow> Inl e
      | Inr (item, b) \<Rightarrow>
          (case map_of item ''id'' of
             None \<Rightarrow> Inl (AttributeError ''id'')
           | Some v \<Rightarrow>
               if v \<noteq> PyInt i then Inl (ValueError_offset_mismatch i v version)
               else Inr (item, b)))"

text \<open>The outer loop \<open>for i in range(item_count)\<close>, appending to \<open>items\<close>.\<close>

fun parse_items ::
  "nat \<Rightarrow> template \<Rightarrow> nat list \<Rightarrow> item list \<Rightarrow> buffer \<Rightarrow> error + (item list \<times> buffer)" where
  "parse_items version tmpl [] items buffer = Inr (items, buffer)"
| "parse_items version tmpl (i # is) items buffer =
     (case parse_item version i tmpl buffer of
        Inl e \<Rightarrow> Inl e
      | Inr (item, b) \<Rightarrow> parse_items version tmpl is (items @ [item]) b)"

definition parse :: "buffer \<Rightarrow> template \<Rightarrow> error + (nat \<times> nat \<times> item list)" where
  "parse buffer tmpl =
     (case parse_int buffer 2 of
        (version, b1) \<Rightarrow>
          (case parse_int b1 4 of
             (item_count, b2) \<Rightarrow>
               (case parse_items version tmpl [0..<item_count] [] b2 of
                  Inl e \<Rightarrow> Inl e
                | Inr (items, b3) \<Rightarrow> Inr (version, item_count, items))))"

subsection \<open>Templates\<close>

text \<open>The reduced two-field schema of the end-to-end example.\<close>

definition example_template :: template where
  "example_template =
     [(''id'', Ann_int, mk_Field 4 1 None),
      (''flag'', Ann_int, mk_Field 1 1 None)]"

text \<open>The XOR key of the \<open>name\<close> field, \<open>"PBG892FXX982ABC*"\<close>, as code points.\<close>

definition name_key :: pystr where
  "name_key = [80, 66, 71, 56, 57, 50, 70, 88, 88, 57, 56, 50, 65, 66, 67, 42]"

text \<open>The default template \<open>Item\<close>: its 52 annotated fields, in the order of the class.\<close>

definition Item :: template where
  "Item =
     [(''id'', Ann_int, mk_Field 4 1 None),
      (''properties'', Ann_int, mk_Field 2 1 None),
      (''type'', Ann_int, mk_Field 1 1 None),
      (''material'', Ann_int, mk_Field 1 1 None),
      (''name'', Ann_str, mk_Field (- 1) 1 (Some name_key)),
      (''file_name'', Ann_str, mk_Field (- 1) 1 None),
      (''file_hash'', Ann_int, mk_Field 4 1 None),
      (''visual_type'', Ann_int, mk_Field 1 1 None),
      (''cook_time'', Ann_int, mk_Field 4 1 None),
      (''tex_x'', Ann_int, mk_Field 1 1 None),
      (''tex_y'', Ann_int, mk_Field 1 1 None),
      (''storage_type'', Ann_int, mk_Field 1 1 None),
      (''layer'', Ann_int, mk_Field 1 1 None),
      (''collision_type'', Ann_int, mk_Field 1 1 None),
      (''hardness'', Ann_int, mk_Field 1 1 None),
      (''regen_time'', Ann_int, mk_Field 4 1 None),
      (''clothing_type'', Ann_int, mk_Field 1 1 None),
      (''rarity'', Ann_int, mk_Field 2 1 None),
      (''max_hold'', Ann_int, mk_Field 1 1 None),
      (''alt_file_path'', Ann_str, mk_Field (- 1) 1 None),
      (''alt_file_hash'', Ann_int, mk_Field 4 1 None),
      (''anim_ms'', Ann_int, mk_Field 4 1 None),
      (''pet_name'', Ann_str, mk_Field (- 1) 4 None),
      (''pet_prefix'', Ann_str, mk_Field (- 1) 4 None),
      (''pet_suffix'', Ann_str, mk_Field (- 1) 4 None),
      (''pet_ability'', Ann_str, mk_Field (- 1) 5 None),
      (''seed_base'', Ann_int, mk_Field 1 1 None),
      (''seed_over'', Ann_int, mk_Field 1 1 None),
      (''tree_base'', Ann_int, mk_Field 1 1 None),
      (''tree_over'', Ann_int, mk_Field 1 1 None),
      (''bg_col'', Ann_int, mk_Field 4 1 None),
      (''fg_col'', Ann_int, mk_Field 4 1 None),
      (''seed1'', Ann_int, mk_Field 2 1 None),
      (''seed2'', Ann_int, mk_Field 2 1 None),
      (''bloom_time'', Ann_int, mk_Field 4 1 None),
      (''anim_type'', Ann_int, mk_Field 4 7 None),
      (''anim_string'', Ann_str, mk_Field (- 1) 7 None),
      (''anim_tex'', Ann_str, mk_Field (- 1) 8 None),
      (''anim_string2'', Ann_str, mk_Field (- 1) 8 None),
      (''dlayer1'', Ann_int, mk_Field 4 8 None),
      (''dlayer2'', Ann_int, mk_Field 4 8 None),
      (''properties2'', Ann_int, mk_Field 2 9 None),
      (''_unknown1'', Ann_None, mk_Field 62 9 None),
      (''tile_range'', Ann_int, mk_Field 4 10 None),
      (''pile_range'', Ann_int, mk_Field 4 10 None),
      (''custom_punch'', Ann_str, mk_Field (- 1) 11 None),
      (''_unknown2'', Ann_None, mk_Field 13 12 None),
      (''clock_div'', Ann_int, mk_Field 4 13 None),
      (''parent_id'', Ann_int, mk_Field 4 14 None),
      (''_unknown3'', Ann_None, mk_Field 25 15 None),
      (''alt_sit_path'', Ann_str, mk_Field (- 1) 15 None),
      (''_unknown4'', Ann_str, mk_Field (- 1) 16 None)]"

text \<open>
  A three-field template whose last field came with version 5:
  \<open>id: int = _Field(size=4)\<close>, \<open>name: str = _Field(xor_key="AB")\<close>,
  \<open>bonus: int = _Field(size=1, version=5)\<close>.
\<close>

definition gated_template :: template where
  "gated_template =
     [(''id'', Ann_int, mk_Field 4 1 None),
      (''name'', Ann_str, mk_Field (- 1) 1 (Some [65, 66])),
      (''bonus'', Ann_int, mk_Field 1 5 None)]"

text \<open>A template with a dynamic ignored field: \<open>blob: None = _Field()\<close>.\<close>

definition opaque_template :: template where
  "opaque_template =
     [(''id'', Ann_int, mk_Field 4 1 None),
      (''blob'', Ann_None, mk_Field (- 1) 1 None)]"

text \<open>
  Templates with a field of a kind the decoder does not know: \<open>weight: float\<close>, a class,
  and \<open>weight: "float"\<close>, a string annotation, which has no \<open>__name__\<close>.
\<close>

definition float_template :: template where
  "float_template =
     [(''id'', Ann_int, mk_Field 4 1 None),
      (''weight'', Ann_other (Some ''float''), mk_Field 4 1 None)]"

definition quoted_template :: template where
  "quoted_template =
     [(''id'', Ann_int, mk_Field 4 1 None),
      (''weight'', Ann_other None, mk_Field 4 1 None)]"

subsection \<open>Containers\<close>

text \<open>
  Two containers of version 1 for the two-field template, two records each:
  \<open>01 00 | 02 00 00 00 | 00 00 00 00 05 | 01 00 00 00 07\<close>, and the same with the
  \<open>id\<close> of record 1 set to 2.
\<close>

definition two_records :: buffer where
  "two_records = [0x01, 0x00, 0x02, 0x00, 0x00, 0x00,
                  0x00, 0x00, 0x00, 0x00, 0x05,
                  0x01, 0x00, 0x00, 0x00, 0x07]"

definition drifted_records :: buffer where
  "drifted_records = [0x01, 0x00, 0x02, 0x00, 0x00, 0x00,
                      0x00, 0x00, 0x00, 0x00, 0x05,
                      0x02, 0x00, 0x00, 0x00, 0x07]"

text \<open>
  Two containers for the three-field template, two records each, both records with the
  name bytes \<open>02 00 68 69\<close>: one of version 2, one of version 3.
\<close>

definition named_v2 :: buffer where
  "named_v2 = [0x02, 0x00, 0x02, 0x00, 0x00, 0x00,
               0x00, 0x00, 0x00, 0x00, 0x02, 0x00, 0x68, 0x69,
               0x01, 0x00, 0x00, 0x00, 0x02, 0x00, 0x68, 0x69]"

definition named_v3 :: buffer where
  "named_v3 = [0x03, 0x00, 0x02, 0x00, 0x00, 0x00,
               0x00, 0x00, 0x00, 0x00, 0x02, 0x00, 0x68, 0x69,
               0x01, 0x00, 0x00, 0x00, 0x02, 0x00, 0x68, 0x69]"

text \<open>
  Two containers of version 1 for the template with the ignored field, one record each:
  the ignored bytes are \<open>FF\<close>, which is not UTF-8, and \<open>41\<close>.
\<close>

definition opaque_bad :: buffer where
  "opaque_bad = [0x01, 0x00, 0x01, 0x00, 0x00, 0x00,
                 0x00, 0x00, 0x00, 0x00, 0x01, 0x00, 0xFF]"

definition opaque_good :: buffer where
  "opaque_good = [0x01, 0x00, 0x01, 0x00, 0x00, 0x00,
                  0x00, 0x00, 0x00, 0x00, 0x01, 0x00, 0x41]"

text \<open>
  A template with the one field \<open>id: int = _Field(size=1)\<close>, and a container of version
  258 with 256 records for it: \<open>02 01 | 00 01 00 00 | 00 01 02 ... FF\<close>.
\<close>

definition id_template :: template where
  "id_template = [(''id'', Ann_int, mk_Field 1 1 None)]"

definition many_records :: buffer where
  "many_records = [0x02, 0x01, 0x00, 0x01, 0x00, 0x00] @ map of_nat [0..<256]"

subsection \<open>Auxiliary notions\<close>

text \<open>The value a field gets when the source has no byte left.\<close>

definition zero_value :: "nat \<Rightarrow> annotation \<Rightarrow> Field \<Rightarrow> pyval" where
  "zero_value version t f =
     (if f_version f > int version then PyNone
      else if t = Ann_int then PyInt 0
      else if t = Ann_str then PyStr []
      else PyNone)"

text \<open>The annotations the decoder implements.\<close>

definition supported :: "annotation \<Rightarrow> bool" where
  "supported t = (t = Ann_int \<or> t = Ann_str \<or> t = Ann_None)"

text \<open>The two bytes of a length prefix.\<close>

definition le16 :: "nat \<Rightarrow> byte list" where
  "le16 n = [of_nat (n mod 256), of_nat (n div 256)]"

section \<open>Properties\<close>

subsection \<open>Reading, fields and records\<close>

lemma from_bytes_little_bound: "from_bytes_little bs < 256 ^ length bs"
proof (induction bs)
  case Nil
  show ?case by simp
next
  case (Cons b bs)
  have "unat b < 256" using unsigned_less [of b] by simp
  with Cons show ?case by simp
qed

lemma parse_int_short:
  "0 \<le> sz \<Longrightarrow> length buffer < nat sz \<Longrightarrow> parse_int buffer sz = (from_bytes_little buffer, [])"
  by (simp add: parse_int_def read_def)

lemma parse_int_Nil [simp]: "parse_int [] sz = (0, [])"
  by (simp add: parse_int_def read_def)

lemma parse_str_Nil [simp]: "parse_str [] = Inr ([], [])"
  by (simp add: parse_str_def read_def)

lemma parse_field_Nil:
  "supported t \<Longrightarrow> parse_field version i k t f [] = Inr (zero_value version t f, [])"
  by (auto simp: parse_field_def zero_value_def supported_def xor_str_def)

lemma parse_fields_Nil:
  "\<forall>(k, t, f) \<in> set tmpl. supported t \<Longrightarrow>
   parse_fields version i tmpl item [] =
     Inr (fold (\<lambda>(k, t, f). AList.update k (zero_value version t f)) tmpl item, [])"
  by (induction tmpl arbitrary: item) (auto simp: parse_field_Nil)

lemma parse_fields_append:
  "parse_fields v i (xs @ ys) item b =
     (case parse_fields v i xs item b of
        Inl e \<Rightarrow> Inl e
      | Inr (item', b') \<Rightarrow> parse_fields v i ys item' b')"
  by (induction xs arbitrary: item b) (auto split: sum.splits)

lemma parse_fields_other_key:
  "parse_fields v i tmpl item b = Inr (item', b') \<Longrightarrow> k \<notin> fst ` set tmpl \<Longrightarrow>
   map_of item' k = map_of item k"
proof (induction tmpl arbitrary: item b)
  case Nil
  then show ?case by simp
next
  case (Cons x tmpl)
  obtain k' t f where x: "x = (k', t, f)" by (cases x)
  from Cons.prems(1) obtain val b1 where
    pf: "parse_field v i k' t f b = Inr (val, b1)" and
    rest: "parse_fields v i tmpl (AList.update k' val item) b1 = Inr (item', b')"
    by (auto simp: x split: sum.splits)
  from Cons.prems(2) have "k \<noteq> k'" "k \<notin> fst ` set tmpl" by (auto simp: x)
  with Cons.IH [OF rest] show ?case by (simp add: update_conv')
qed

lemma parse_fields_lookup:
  "distinct (map fst tmpl) \<Longrightarrow> parse_fields v i tmpl item b = Inr (item', b') \<Longrightarrow>
   (k, t, f) \<in> set tmpl \<Longrightarrow>
   \<exists>val b1 b2. parse_field v i k t f b1 = Inr (val, b2) \<and> map_of item' k = Some val"
proof (induction tmpl arbitrary: item b)
  case Nil
  then show ?case by simp
next
  case (Cons x tmpl)
  obtain k' t' f' where x: "x = (k', t', f')" by (cases x)
  from Cons.prems(2) obtain val b1 where
    pf: "parse_field v i k' t' f' b = Inr (val, b1)" and
    rest: "parse_fields v i tmpl (AList.update k' val item) b1 = Inr (item', b')"
    by (auto simp: x split: sum.splits)
  from Cons.prems(1) have d: "distinct (map fst tmpl)" and nk: "k' \<notin> fst ` set tmpl"
    by (auto simp: x)
  show ?case
  proof (cases "(k, t, f) = x")
    case True
    then have [simp]: "k' = k" "t' = t" "f' = f" by (simp_all add: x)
    from parse_fields_other_key [OF rest nk] have "map_of item' k = Some val"
      by (simp add: update_conv')
    with pf show ?thesis by auto
  next
    case False
    with Cons.prems(3) have "(k, t, f) \<in> set tmpl" by simp
    from Cons.IH [OF d rest this] show ?thesis .
  qed
qed

lemma parse_field_gated:
  "f_version f > int version \<Longrightarrow> parse_field version i k t f buffer = Inr (PyNone, buffer)"
  by (simp add: parse_field_def)

lemma parse_field_int:
  "\<not> f_version f > int version \<Longrightarrow>
   parse_field version i k Ann_int f buffer =
     Inr (PyInt (fst (parse_int buffer (f_size f))), snd (parse_int buffer (f_size f)))"
  by (simp add: parse_field_def split: prod.splits)

lemma parse_fields_gated:
  assumes "distinct (map fst tmpl)" and "parse_fields v i tmpl item b = Inr (item', b')"
    and "(k, t, f) \<in> set tmpl" and "f_version f > int v"
  shows "map_of item' k = Some PyNone"
  using parse_fields_lookup [OF assms(1-3)] assms(4) by (auto simp: parse_field_gated)

lemma parse_items_append:
  "parse_items v tmpl (xs @ ys) acc b =
     (case parse_items v tmpl xs acc b of
        Inl e \<Rightarrow> Inl e
      | Inr (acc', b') \<Rightarrow> parse_items v tmpl ys acc' b')"
  by (induction xs arbitrary: acc b) (auto split: sum.splits)

lemma parse_items_acc:
  "parse_items v tmpl is acc b = Inr (items, b') \<Longrightarrow>
   \<exists>new. items = acc @ new \<and> length new = length is"
proof (induction "is" arbitrary: acc b)
  case Nil
  then show ?case by simp
next
  case (Cons i "is")
  from Cons.prems obtain item b1 where
    "parse_items v tmpl is (acc @ [item]) b1 = Inr (items, b')"
    by (auto split: sum.splits)
  from Cons.IH [OF this] show ?case by auto
qed

lemma parse_items_nth:
  assumes "parse_items v tmpl is acc b = Inr (items, b')" and "j < length is"
  shows "\<exists>b1 b2. parse_items v tmpl (take j is) acc b = Inr (take (length acc + j) items, b1) \<and>
                 parse_item v (is ! j) tmpl b1 = Inr (items ! (length acc + j), b2)"
proof -
  have split: "is = take j is @ (is ! j) # drop (Suc j) is"
    using assms(2) by (rule id_take_nth_drop)
  from assms(1) obtain acc1 b1 where
    p1: "parse_items v tmpl (take j is) acc b = Inr (acc1, b1)" and
    p2: "parse_items v tmpl ((is ! j) # drop (Suc j) is) acc1 b1 = Inr (items, b')"
    by (subst (asm) split) (auto simp: parse_items_append split: sum.splits)
  from p2 obtain item b2 where
    p3: "parse_item v (is ! j) tmpl b1 = Inr (item, b2)" and
    p4: "parse_items v tmpl (drop (Suc j) is) (acc1 @ [item]) b2 = Inr (items, b')"
    by (auto split: sum.splits)
  from parse_items_acc [OF p1] assms(2) obtain new1 where
    a1: "acc1 = acc @ new1" "length new1 = j" by auto
  from parse_items_acc [OF p4] obtain new2 where
    a2: "items = (acc1 @ [item]) @ new2" by auto
  have "take (length acc + j) items = acc1" by (simp add: a1 a2)
  moreover have "items ! (length acc + j) = item"
    using a1 by (simp add: a2 nth_append)
  ultimately show ?thesis using p1 p3 by auto
qed

lemma parse_item_id:
  "parse_item v i tmpl b = Inr (item, b') \<Longrightarrow> map_of item ''id'' = Some (PyInt i)"
  by (auto simp: parse_item_def split: sum.splits option.splits if_splits)

lemma parse_header:
  "parse buffer tmpl =
     (case parse_items (from_bytes_little (take 2 buffer)) tmpl
             [0..<from_bytes_little (take 4 (drop 2 buffer))] [] (drop 6 buffer) of
        Inl e \<Rightarrow> Inl e
      | Inr (items, b) \<Rightarrow>
          Inr (from_bytes_little (take 2 buffer), from_bytes_little (take 4 (drop 2 buffer)), items))"
  by (simp add: parse_def parse_int_def read_def)

lemma parse_Inr_items:
  assumes "parse buffer tmpl = Inr (version, count, items)"
  shows "version = from_bytes_little (take 2 buffer)"
    and "count = from_bytes_little (take 4 (drop 2 buffer))"
    and "\<exists>b. parse_items version tmpl [0..<count] [] (drop 6 buffer) = Inr (items, b)"
  using assms by (auto simp: parse_header split: sum.splits)

lemma parse_fails_at:
  assumes "i < from_bytes_little (take 4 (drop 2 buffer))"
    and "parse_items (from_bytes_little (take 2 buffer)) tmpl [0..<i] [] (drop 6 buffer)
           = Inr (items, b)"
    and "parse_item (from_bytes_little (take 2 buffer)) i tmpl b = Inl e"
  shows "parse buffer tmpl = Inl e"
proof -
  let ?c = "from_bytes_little (take 4 (drop 2 buffer))"
  have "[0..<?c] = [0..<i] @ i # [Suc i..<?c]"
    using assms(1) by (metis le_add1 less_imp_add_positive upt_add_eq_append upt_conv_Cons plus_nat.add_0)
  then show ?thesis
    using assms(2,3) by (simp add: parse_header parse_items_append)
qed

text \<open>The equations that evaluate \<open>parse\<close> on a concrete container.\<close>

lemmas run_simps = parse_def parse_int_def read_def example_template_def mk_Field_def
      parse_item_def new_item_def parse_field_def upt_conv_Cons

lemma parse_field_str:
  assumes "\<not> f_version f > int version" and "parse_str buffer = Inr (s, rest)"
  shows "parse_field version i k Ann_str f buffer =
           (case f_xor_key f of
              None \<Rightarrow> Inr (PyStr s, rest)
            | Some key \<Rightarrow>
                if version < 3 then Inr (PyStr s, rest)
                else (case xor_str s key (int i) of
                        Inl e \<Rightarrow> Inl e
                      | Inr s' \<Rightarrow> Inr (PyStr s', rest)))"
  using assms by (auto simp: parse_field_def split: option.splits)

lemma parse_fields_at:
  "parse_fields version i (pre @ (k, t, f) # post) item b =
     (case parse_fields version i pre item b of
        Inl e \<Rightarrow> Inl e
      | Inr (item1, b1) \<Rightarrow>
          (case parse_field version i k t f b1 of
             Inl e \<Rightarrow> Inl e
           | Inr (v, b2) \<Rightarrow> parse_fields version i post (AList.update k v item1) b2))"
  by (simp add: parse_fields_append split: sum.splits)

lemma parse_field_other:
  "\<not> f_version f > int version \<Longrightarrow>
   parse_field version i k (Ann_other nm) f buffer =
     (case nm of
        Some n \<Rightarrow> Inl (ValueError_unknown_field_type k n)
      | None \<Rightarrow> Inl (AttributeError ''__name__''))"
  by (simp add: parse_field_def split: option.splits)

lemma parse_fields_fails_at:
  "parse_fields version i pre item b = Inr (item1, b1) \<Longrightarrow>
   parse_field version i k t f b1 = Inl e \<Longrightarrow>
   parse_fields version i (pre @ (k, t, f) # post) item b = Inl e"
  by (simp add: parse_fields_append)

lemma parse_item_fails:
  "parse_fields version i tmpl (new_item tmpl) b = Inl e \<Longrightarrow> parse_item version i tmpl b = Inl e"
  by (simp add: parse_item_def)

lemma unknown_kind_named:
  assumes "\<not> f_version f > int version"
    and "parse_fields version i pre (new_item (pre @ (k, Ann_other (Some nm), f) # post)) b
           = Inr (item1, b1)"
  shows "parse_item version i (pre @ (k, Ann_other (Some nm), f) # post) b
           = Inl (ValueError_unknown_field_type k nm)"
  by (rule parse_item_fails, rule parse_fields_fails_at [OF assms(2)])
     (simp add: parse_field_other assms(1))

lemma parse_int_le16:
  assumes "n < 65536"
  shows "parse_int (le16 n @ rest) 2 = (n, rest)"
proof -
  have a: "unat (of_nat (n mod 256) :: byte) = n mod 256"
    by (simp add: unat_of_nat)
  have "n div 256 < 256" using assms by simp
  then have b: "unat (of_nat (n div 256) :: byte) = n div 256"
    by (simp add: unat_of_nat)
  show ?thesis by (simp add: parse_int_def read_def le16_def a b)
qed

lemma parse_str_le16:
  assumes "length payload < 65536"
  shows "parse_str (le16 (length payload) @ payload @ rest) =
           (case utf8_decode payload of None \<Rightarrow> Inl UnicodeDecodeError | Some s \<Rightarrow> Inr (s, rest))"
  by (simp add: parse_str_def parse_int_le16 [OF assms] read_def split: option.splits)

lemma parse_str_error: "parse_str buffer = Inl e \<Longrightarrow> e = UnicodeDecodeError"
  by (auto simp: parse_str_def split: prod.splits option.splits)

lemma parse_field_opaque:
  "\<not> f_version f > int version \<Longrightarrow> f_size f \<le> 0 \<Longrightarrow>
   parse_field version i k Ann_None f buffer =
     (case parse_str buffer of Inl e \<Rightarrow> Inl e | Inr (s, rest) \<Rightarrow> Inr (PyNone, rest))"
  by (simp add: parse_field_def)

lemmas run_str_simps = gated_template_def parse_str_def cont_def low6_def xor_str_def chr_def

lemma parse_fields_all_gated:
  "\<forall>(k, t, f) \<in> set tmpl. f_version f > int version \<Longrightarrow>
   parse_fields version i tmpl item b =
     Inr (fold (\<lambda>(k, t, f). AList.update k PyNone) tmpl item, b)"
  by (induction tmpl arbitrary: item) (auto simp: parse_field_gated)

lemma parse_item_gated_id:
  assumes "distinct (map fst tmpl)" and "(''id'', t, f) \<in> set tmpl"
    and "f_version f > int version"
  shows "parse_item version i tmpl b =
           (case parse_fields version i tmpl (new_item tmpl) b of
              Inl e \<Rightarrow> Inl e
            | Inr (item, b') \<Rightarrow> Inl (ValueError_offset_mismatch i PyNone version))"
proof (cases "parse_fields version i tmpl (new_item tmpl) b")
  case (Inl e)
  then show ?thesis by (simp add: parse_item_def)
next
  case (Inr r)
  obtain item b' where r: "r = (item, b')" by (cases r)
  from Inr have "map_of item ''id'' = Some PyNone"
    unfolding r using assms by (intro parse_fields_gated)
  with Inr show ?thesis by (simp add: parse_item_def r)
qed

lemma parse_first_record:
  assumes "1 \<le> from_bytes_little (take 4 (drop 2 buffer))"
    and "parse_item (from_bytes_little (take 2 buffer)) 0 tmpl (drop 6 buffer) = Inl e"
  shows "parse buffer tmpl = Inl e"
  using assms by (intro parse_fails_at [where i = 0 and items = "[]" and b = "drop 6 buffer"]) simp_all

lemma distinct_Item: "distinct (map fst Item)"
  by (simp add: Item_def)

lemma Item_versions: "\<forall>(k, t, f) \<in> set Item. f_version f > int 0"
  by (simp add: Item_def mk_Field_def)

text \<open>The little-endian value, byte by byte.\<close>

lemma from_bytes_little_sum:
  "from_bytes_little bs = (\<Sum>i < length bs. unat (bs ! i) * 256 ^ i)"
proof (induction bs)
  case Nil
  show ?case by simp
next
  case (Cons b bs)
  have "(\<Sum>i < length (b # bs). unat ((b # bs) ! i) * 256 ^ i)
          = (\<Sum>i < Suc (length bs). unat ((b # bs) ! i) * 256 ^ i)"
    by simp
  also have "\<dots> = unat ((b # bs) ! 0) * 256 ^ 0
          + (\<Sum>i < length bs. unat ((b # bs) ! Suc i) * 256 ^ Suc i)"
    by (rule sum.lessThan_Suc_shift)
  also have "\<dots> = unat b + (\<Sum>i < length bs. unat (bs ! i) * 256 ^ Suc i)"
    by simp
  also have "(\<Sum>i < length bs. unat (bs ! i) * 256 ^ Suc i)
          = 256 * (\<Sum>i < length bs. unat (bs ! i) * 256 ^ i)"
    by (simp add: sum_distrib_left mult.commute mult.left_commute)
  finally show ?case by (simp add: Cons.IH)
qed

lemma from_bytes_little_take:
  "from_bytes_little (take n (drop m buffer))
     = (\<Sum>i < min n (length buffer - m). unat (buffer ! (m + i)) * 256 ^ i)"
proof -
  have "from_bytes_little (take n (drop m buffer))
          = (\<Sum>i < length (take n (drop m buffer)).
               unat (take n (drop m buffer) ! i) * 256 ^ i)"
    by (rule from_bytes_little_sum)
  also have "\<dots> = (\<Sum>i < min n (length buffer - m). unat (buffer ! (m + i)) * 256 ^ i)"
    by (rule sum.cong) (auto simp: min.commute)
  finally show ?thesis .
qed

lemma header_bytes:
  assumes "buffer = v0 # v1 # c0 # c1 # c2 # c3 # rest"
  shows "from_bytes_little (take 2 buffer) = unat v0 + 256 * unat v1"
    and "from_bytes_little (take 4 (drop 2 buffer))
           = unat c0 + 256 * unat c1 + 65536 * unat c2 + 16777216 * unat c3"
    and "drop 6 buffer = rest"
  by (simp_all add: assms)

lemma parse_item_id_template:
  assumes "k < 256" and "1 \<le> v"
  shows "parse_item v k id_template (of_nat k # bs) = Inr ([(''id'', PyInt k)], bs)"
proof -
  have "unat (of_nat k :: byte) = k" using assms(1) by (simp add: unat_of_nat)
  then show ?thesis
    using assms(2)
    by (simp add: parse_item_def id_template_def new_item_def mk_Field_def parse_field_def
        parse_int_def read_def)
qed

lemma parse_items_id_template:
  "1 \<le> v \<Longrightarrow> k + n \<le> 256 \<Longrightarrow>
   parse_items v id_template [k..<k + n] acc (map of_nat [k..<k + n] @ rest)
     = Inr (acc @ map (\<lambda>i. [(''id'', PyInt i)]) [k..<k + n], rest)"
proof (induction n arbitrary: k acc)
  case 0
  then show ?case by simp
next
  case (Suc n)
  have u: "[k..<k + Suc n] = k # [Suc k..<Suc k + n]" by (simp add: upt_conv_Cons)
  from Suc.prems have "k < 256" "Suc k + n \<le> 256" by simp_all
  with Suc.IH [of "Suc k" "acc @ [[(''id'', PyInt k)]]"] Suc.prems(1)
  show ?case unfolding u by (simp add: parse_item_id_template)
qed

lemma parse_many_records:
  "parse many_records id_template = Inr (258, 256, map (\<lambda>i. [(''id'', PyInt i)]) [0..<256])"
proof -
  have "parse_items 258 id_template [0..<0 + 256] [] (map of_nat [0..<0 + 256] @ [])
          = Inr ([] @ map (\<lambda>i. [(''id'', PyInt i)]) [0..<0 + 256], [])"
    by (rule parse_items_id_template) simp_all
  then have "parse_items 258 id_template [0..<256] [] (map of_nat [0..<256])
          = Inr (map (\<lambda>i. [(''id'', PyInt i)]) [0..<256], [])"
    by simp
  then show ?thesis
    by (simp add: parse_header many_records_def)
qed

subsection \<open>The XOR transform\<close>

lemma xor_loop_Inr_iff:
  "key \<noteq> [] \<Longrightarrow>
   xor_loop s key offset is acc = Inr t \<longleftrightarrow>
     (t = acc @ map (xor_char s key offset) is \<and>
      (\<forall>i \<in> set is. xor_char s key offset i < 0x110000))"
  by (induction "is" arbitrary: acc) (auto simp: chr_def xor_char_def)

lemma xor_loop_Nil_key:
  "xor_loop s [] offset is acc = Inr t \<longleftrightarrow> (is = [] \<and> t = acc)"
  by (cases "is") auto

lemma xor_str_Inr_iff:
  "key \<noteq> [] \<Longrightarrow>
   xor_str s key offset = Inr t \<longleftrightarrow>
     (t = map (xor_char s key offset) [0..<length s] \<and>
      (\<forall>i < length s. xor_char s key offset i < 0x110000))"
  by (auto simp: xor_str_def xor_loop_Inr_iff)

lemma xor_str_Nil [simp]: "xor_str [] key offset = Inr []"
  by (simp add: xor_str_def)

lemma xor_char_twice:
  "i < length s \<Longrightarrow>
   xor_char (map (xor_char s key offset) [0..<length s]) key offset i = s ! i"
  by (simp add: xor_char_def xor.assoc)

lemma xor_str_back:
  assumes "wf_str s" and "xor_str s key offset = Inr t"
  shows "xor_str t key offset = Inr s"
proof (cases "key = []")
  case True
  with assms(2) have "s = []" "t = []"
    by (auto simp: xor_str_def xor_loop_Nil_key)
  then show ?thesis by simp
next
  case False
  from assms(2) False have t: "t = map (xor_char s key offset) [0..<length s]"
    by (simp add: xor_str_Inr_iff)
  have len: "length t = length s" by (simp add: t)
  have ch: "\<And>i. i < length s \<Longrightarrow> xor_char t key offset i = s ! i"
    unfolding t by (rule xor_char_twice)
  have "map (xor_char t key offset) [0..<length t] = map ((!) s) [0..<length s]"
    unfolding len by (rule map_cong) (auto simp: ch)
  also have "\<dots> = s" by (rule map_nth)
  finally have m: "map (xor_char t key offset) [0..<length t] = s" .
  have "\<forall>i < length t. xor_char t key offset i < 0x110000"
    using assms(1) by (auto simp: len ch wf_str_def)
  with m False show ?thesis by (simp add: xor_str_Inr_iff)
qed

text \<open>
  A key character below \<open>0x10000\<close> changes only the low 16 bits, and \<open>0x110000\<close> is
  17 times \<open>0x10000\<close>: the result stays a code point.
\<close>

lemma xor_small_key:
  fixes a k :: nat
  assumes "a < 0x110000" and "k < 0x10000"
  shows "a XOR k < 0x110000"
proof -
  have "drop_bit 16 (a XOR k) = drop_bit 16 a XOR drop_bit 16 k"
    by (rule drop_bit_xor)
  also have "drop_bit 16 k = 0" using assms(2) by (simp add: drop_bit_eq_div)
  finally have "(a XOR k) div 65536 = a div 65536" by (simp add: drop_bit_eq_div)
  moreover have "a div 65536 < 17" using assms(1) by simp
  ultimately have "(a XOR k) div 65536 < 17" by simp
  then show ?thesis by simp
qed

lemma xor_str_total:
  assumes "wf_str s" and "key \<noteq> []" and "\<forall>k \<in> set key. k < 0x10000"
  shows "\<exists>t. xor_str s key offset = Inr t"
proof -
  have "xor_char s key offset i < 0x110000" if "i < length s" for i
  proof -
    have "nat ((int i + offset) mod int (length key)) < length key"
      using assms(2) by (simp add: nat_less_iff)
    then have "key ! nat ((int i + offset) mod int (length key)) < 0x10000"
      using assms(3) by (simp add: all_set_conv_all_nth)
    moreover have "s ! i < 0x110000" using assms(1) that by (simp add: wf_str_def)
    ultimately show ?thesis unfolding xor_char_def by (rule xor_small_key[rotated])
  qed
  with assms(2) show ?thesis by (simp add: xor_str_Inr_iff)
qed

text \<open>
  C5. \<open>_xor_str\<close> is an involution: for every string \<open>s\<close>, every key that is not empty
  and every offset, negative ones too, \<open>_xor_str(s, key, offset)\<close> returns a string, and
  \<open>_xor_str\<close> of that string with the same key and offset returns \<open>s\<close>. The keys are
  those of the format, short ASCII strings; the proof uses only that every character of
  the key is below \<open>U+10000\<close>. More generally, whenever the first application returns,
  with any key, the second gives \<open>s\<close> back.
\<close>

theorem xor_str_involution:
  assumes "wf_str s"
  shows "(key \<noteq> [] \<and> (\<forall>k \<in> set key. k < 0x10000) \<longrightarrow>
            (\<exists>u. xor_str s key offset = Inr u \<and> xor_str u key offset = Inr s)) \<and>
         (xor_str s key offset = Inr t \<longrightarrow> xor_str t key offset = Inr s)"
proof (intro conjI impI)
  assume "xor_str s key offset = Inr t"
  with assms show "xor_str t key offset = Inr s" by (rule xor_str_back)
next
  assume k: "key \<noteq> [] \<and> (\<forall>k \<in> set key. k < 0x10000)"
  with assms obtain u where u: "xor_str s key offset = Inr u"
    using xor_str_total by blast
  with assms have "xor_str u key offset = Inr s" by (rule xor_str_back)
  with u show "\<exists>u. xor_str s key offset = Inr u \<and> xor_str u key offset = Inr s" by blast
qed

text \<open>
  The involution at the string \<open>"AB"\<close>, the key of the \<open>name\<close> field and offset 5: the
  transform gives \<open>[115, 4]\<close>, and \<open>[115, 4]\<close> gives \<open>"AB"\<close> back.
\<close>

theorem xor_str_involution_witness:
  "wf_str [65, 66] \<and> name_key \<noteq> [] \<and> list_all (\<lambda>k. k < 0x10000) name_key \<and>
   xor_str [65, 66] name_key 5 = Inr [115, 4] \<and> xor_str [115, 4] name_key 5 = Inr [65, 66]"
  using xor_str_involution [where s = "[65, 66]" and key = name_key and offset = 5
      and t = "[115, 4]"]
  by (simp add: wf_str_def name_key_def xor_str_def chr_def list_all_iff)

text \<open>
  The bound on the key is the exact one: a key character from \<open>U+10000\<close> on, which no
  key of the format has, can take \<open>chr\<close> out of its range.
\<close>

lemma xor_str_key_beyond_bound:
  "xor_str [0x100000] [0x10000] 0 = Inl (ValueError_chr 0x110000)"
  by (simp add: xor_str_def chr_def)

subsection \<open>The end-to-end example\<close>

text \<open>
  C7. With the template \<open>[id: int, size 4; flag: int, size 1]\<close> the bytes
  \<open>01 00 | 01 00 00 00 | 00 00 00 00 05\<close> decode to version 1, count 1 and one item with
  \<open>id = 0\<close> and \<open>flag = 5\<close>.
\<close>

theorem parse_example:
  "parse [0x01, 0x00, 0x01, 0x00, 0x00, 0x00, 0x00, 0x00, 0x00, 0x00, 0x05] example_template
     = Inr (1, 1, [[(''id'', PyInt 0), (''flag'', PyInt 5)]])"
  by (simp add: parse_def parse_int_def read_def example_template_def mk_Field_def
      parse_item_def new_item_def parse_field_def)

subsection \<open>Short reads\<close>

text \<open>
  C1, as the code has it. \<open>_parse_int\<close> never fails: when fewer than \<open>size\<close> bytes are left
  it returns the little-endian value of the bytes that are left, a number below
  \<open>256 ^ n\<close> for \<open>n\<close> bytes and 0 for none, and leaves the source exhausted. Decoding the
  fields of a record from an exhausted source succeeds, for a template of the implemented
  kinds: every present integer field is 0, every present string field is empty, every
  other field is \<open>None\<close>. No end-of-file error exists.
\<close>

theorem parse_int_short_read:
  "(0 \<le> sz \<and> length buffer < nat sz \<longrightarrow>
      parse_int buffer sz = (from_bytes_little buffer, []) \<and>
      from_bytes_little buffer < 256 ^ length buffer) \<and>
   ((\<forall>(k, t, f) \<in> set tmpl. supported t) \<longrightarrow>
      parse_fields version i tmpl item [] =
        Inr (fold (\<lambda>(k, t, f). AList.update k (zero_value version t f)) tmpl item, []))"
  by (simp add: parse_int_short from_bytes_little_bound parse_fields_Nil)

text \<open>
  Reading four bytes where only \<open>05\<close> is left gives 5; the two-field template decodes
  from the empty source to \<open>id = 0\<close>, \<open>flag = 0\<close>.
\<close>

theorem parse_int_short_read_witness:
  "(0 :: int) \<le> 4 \<and> length [0x05 :: byte] < nat 4 \<and> parse_int [0x05] 4 = (5, []) \<and>
   list_all (\<lambda>(k, t, f). supported t) example_template \<and>
   parse_fields 1 0 example_template (new_item example_template) []
     = Inr ([(''id'', PyInt 0), (''flag'', PyInt 0)], [])"
  using parse_int_short_read [of 4 "[0x05]" example_template 1 0 "new_item example_template"]
  by (simp add: example_template_def supported_def new_item_def zero_value_def mk_Field_def)

text \<open>
  C1 as the specification states it fails: the container \<open>01 00 | 01 00 00 00 | 00 00\<close>
  announces one record of five bytes and holds two of them, and \<open>parse\<close> returns the
  zero-filled record instead of failing.
\<close>

theorem truncated_record_counterexample:
  "parse [0x01, 0x00, 0x01, 0x00, 0x00, 0x00, 0x00, 0x00] example_template
     = Inr (1, 1, [[(''id'', PyInt 0), (''flag'', PyInt 0)]])"
  by (simp add: parse_def parse_int_def read_def example_template_def mk_Field_def
      parse_item_def new_item_def parse_field_def)

subsection \<open>Version gating\<close>

text \<open>
  C2. A field whose \<open>_Field.version\<close> is greater than the version of the container decodes
  to \<open>None\<close> and leaves the source as it was, whatever its annotation; the decoded item
  holds \<open>None\<close> under its name. A present integer field decodes to an integer, which is
  never \<open>None\<close>.
\<close>

theorem version_gating:
  assumes "f_version f > int version"
  shows "parse_field version i k t f buffer = Inr (PyNone, buffer) \<and>
         (distinct (map fst tmpl) \<and> (k, t, f) \<in> set tmpl \<and>
          parse_fields version i tmpl item b = Inr (item', b') \<longrightarrow> map_of item' k = Some PyNone) \<and>
         (\<not> f_version g > int version \<longrightarrow>
            (\<exists>n rest. parse_field version i k' Ann_int g buffer = Inr (PyInt n, rest) \<and>
                      PyInt n \<noteq> PyNone))"
proof (intro conjI impI)
  from assms show "parse_field version i k t f buffer = Inr (PyNone, buffer)"
    by (rule parse_field_gated)
next
  assume "distinct (map fst tmpl) \<and> (k, t, f) \<in> set tmpl \<and>
          parse_fields version i tmpl item b = Inr (item', b')"
  with assms show "map_of item' k = Some PyNone"
    by (blast intro: parse_fields_gated)
next
  assume "\<not> f_version g > int version"
  then show "\<exists>n rest. parse_field version i k' Ann_int g buffer = Inr (PyInt n, rest) \<and>
                      PyInt n \<noteq> PyNone"
    by (simp add: parse_field_int)
qed

text \<open>
  The three-field template under version 1: the record \<open>00 00 00 00 | 02 00 68 69\<close> holds
  \<open>id\<close> and \<open>name\<close> only, \<open>bonus\<close> (version 5) decodes to \<open>None\<close> and takes no byte;
  a present one-byte field reads \<open>00\<close> as the integer 0.
\<close>

theorem version_gating_witness:
  "f_version (mk_Field 1 5 None) > int 1 \<and>
   parse_field 1 0 ''bonus'' Ann_int (mk_Field 1 5 None) [0x07] = Inr (PyNone, [0x07]) \<and>
   distinct (map fst gated_template) \<and>
   (''bonus'', Ann_int, mk_Field 1 5 None) \<in> set gated_template \<and>
   parse_fields 1 0 gated_template (new_item gated_template)
       [0x00, 0x00, 0x00, 0x00, 0x02, 0x00, 0x68, 0x69]
     = Inr ([(''id'', PyInt 0), (''name'', PyStr [104, 105]), (''bonus'', PyNone)], []) \<and>
   \<not> f_version (mk_Field 1 1 None) > int 1 \<and>
   parse_field 1 0 ''flag'' Ann_int (mk_Field 1 1 None) [0x00] = Inr (PyInt 0, [])"
  using version_gating [where f = "mk_Field 1 5 None" and version = 1 and i = 0
      and k = "''bonus''" and t = Ann_int and buffer = "[0x07]" and tmpl = gated_template
      and item = "new_item gated_template"
      and b = "[0x00, 0x00, 0x00, 0x00, 0x02, 0x00, 0x68, 0x69]"
      and item' = "[(''id'', PyInt 0), (''name'', PyStr [104, 105]), (''bonus'', PyNone)]"
      and b' = "[]" and g = "mk_Field 1 1 None" and k' = "''flag''"]
  by (simp add: gated_template_def mk_Field_def new_item_def parse_field_def parse_int_def
      read_def parse_str_def cont_def low6_def)

subsection \<open>The container\<close>

text \<open>
  C6. \<open>parse\<close> reads the version from the first two bytes and the count from the next
  four, both little-endian: byte \<open>i\<close> of each counts \<open>256 ^ i\<close> times, so that a header
  \<open>v0 v1 | c0 c1 c2 c3\<close> gives the version \<open>v0 + 256 * v1\<close> and the count
  \<open>c0 + 256 * c1 + 65536 * c2 + 16777216 * c3\<close>. It then decodes the records one after
  the other, the first at byte 6, each from the byte where the one before ended. When it
  returns \<open>(version, count, items)\<close>, \<open>items\<close> has \<open>count\<close> elements, and element \<open>i\<close> is
  what \<open>parse_item\<close> decodes with index \<open>i\<close> at the position the first \<open>i\<close> records (the
  first \<open>i\<close> elements of \<open>items\<close>) leave.
\<close>

theorem parse_container:
  assumes "parse buffer tmpl = Inr (version, count, items)"
  shows "version = (\<Sum>i < min 2 (length buffer). unat (buffer ! i) * 256 ^ i) \<and>
         count = (\<Sum>i < min 4 (length buffer - 2). unat (buffer ! (2 + i)) * 256 ^ i) \<and>
         (buffer = v0 # v1 # c0 # c1 # c2 # c3 # rest \<longrightarrow>
            version = unat v0 + 256 * unat v1 \<and>
            count = unat c0 + 256 * unat c1 + 65536 * unat c2 + 16777216 * unat c3 \<and>
            drop 6 buffer = rest) \<and>
         version = from_bytes_little (take 2 buffer) \<and> version < 2 ^ 16 \<and>
         count = from_bytes_little (take 4 (drop 2 buffer)) \<and> count < 2 ^ 32 \<and>
         length items = count \<and>
         (\<forall>i < count. \<exists>b b'.
            parse_items version tmpl [0..<i] [] (drop 6 buffer) = Inr (take i items, b) \<and>
            parse_item version i tmpl b = Inr (items ! i, b'))"
proof -
  note hd = parse_Inr_items [OF assms]
  from hd(3) obtain b where
    its: "parse_items version tmpl [0..<count] [] (drop 6 buffer) = Inr (items, b)" ..
  from parse_items_acc [OF its] have len: "length items = count" by auto
  have "from_bytes_little (take 2 buffer) < 256 ^ length (take 2 buffer)"
    by (rule from_bytes_little_bound)
  also have "\<dots> \<le> (256 :: nat) ^ 2" by (rule power_increasing) simp_all
  finally have v: "version < 2 ^ 16" by (simp add: hd(1))
  have "from_bytes_little (take 4 (drop 2 buffer)) < 256 ^ length (take 4 (drop 2 buffer))"
    by (rule from_bytes_little_bound)
  also have "\<dots> \<le> (256 :: nat) ^ 4" by (rule power_increasing) simp_all
  finally have c: "count < 2 ^ 32" by (simp add: hd(2))
  have vs: "version = (\<Sum>i < min 2 (length buffer). unat (buffer ! i) * 256 ^ i)"
    unfolding hd(1) using from_bytes_little_take [of 2 0 buffer] by simp
  have cs: "count = (\<Sum>i < min 4 (length buffer - 2). unat (buffer ! (2 + i)) * 256 ^ i)"
    unfolding hd(2) by (rule from_bytes_little_take)
  have ex: "version = unat v0 + 256 * unat v1 \<and>
            count = unat c0 + 256 * unat c1 + 65536 * unat c2 + 16777216 * unat c3 \<and>
            drop 6 buffer = rest"
    if "buffer = v0 # v1 # c0 # c1 # c2 # c3 # rest"
    unfolding hd(1) hd(2) using header_bytes [OF that] by simp
  have "\<exists>b b'. parse_items version tmpl [0..<i] [] (drop 6 buffer) = Inr (take i items, b) \<and>
            parse_item version i tmpl b = Inr (items ! i, b')" if "i < count" for i
  proof -
    from that have "i < length [0..<count]" by simp
    from parse_items_nth [OF its this] that show ?thesis by (simp add: take_upt)
  qed
  with hd(1,2) v c len vs cs ex show ?thesis by blast
qed

text \<open>
  The container of two records decodes to its two records, in the order of the file. The
  container with the header \<open>02 01 | 00 01 00 00\<close> has version \<open>2 + 256 * 1 = 258\<close> and
  \<open>0 + 256 * 1 = 256\<close> records, and decodes to the records with \<open>id\<close> 0 to 255.
\<close>

theorem parse_container_witness:
  "parse two_records example_template
     = Inr (1, 2, [[(''id'', PyInt 0), (''flag'', PyInt 5)], [(''id'', PyInt 1), (''flag'', PyInt 7)]]) \<and>
   from_bytes_little (take 2 two_records) = 1 \<and>
   from_bytes_little (take 4 (drop 2 two_records)) = 2 \<and>
   parse_item 1 0 example_template (drop 6 two_records)
     = Inr ([(''id'', PyInt 0), (''flag'', PyInt 5)], drop 11 two_records) \<and>
   parse_item 1 1 example_template (drop 11 two_records)
     = Inr ([(''id'', PyInt 1), (''flag'', PyInt 7)], []) \<and>
   parse many_records id_template = Inr (258, 256, map (\<lambda>i. [(''id'', PyInt i)]) [0..<256]) \<and>
   many_records = 0x02 # 0x01 # 0x00 # 0x01 # 0x00 # 0x00 # map of_nat [0..<256] \<and>
   (258 :: nat) = unat (0x02 :: byte) + 256 * unat (0x01 :: byte) \<and>
   (256 :: nat) = unat (0x00 :: byte) + 256 * unat (0x01 :: byte) + 65536 * unat (0x00 :: byte)
                    + 16777216 * unat (0x00 :: byte) \<and>
   length (map (\<lambda>i. [(''id'', PyInt i)]) [0..<256]) = 256"
proof -
  have big: "parse many_records id_template
               = Inr (258, 256, map (\<lambda>i. [(''id'', PyInt i)]) [0..<256])"
    by (rule parse_many_records)
  have shape: "many_records = 0x02 # 0x01 # 0x00 # 0x01 # 0x00 # 0x00 # map of_nat [0..<256]"
    by (simp add: many_records_def)
  have small: "parse two_records example_template
     = Inr (1, 2, [[(''id'', PyInt 0), (''flag'', PyInt 5)], [(''id'', PyInt 1), (''flag'', PyInt 7)]])"
    by (simp add: two_records_def run_simps)
  have rest: "from_bytes_little (take 2 two_records) = 1 \<and>
     from_bytes_little (take 4 (drop 2 two_records)) = 2 \<and>
     parse_item 1 0 example_template (drop 6 two_records)
       = Inr ([(''id'', PyInt 0), (''flag'', PyInt 5)], drop 11 two_records) \<and>
     parse_item 1 1 example_template (drop 11 two_records)
       = Inr ([(''id'', PyInt 1), (''flag'', PyInt 7)], [])"
    by (simp add: two_records_def run_simps)
  from parse_container [OF big, where ?v0.0 = "0x02" and ?v1.0 = "0x01" and ?c0.0 = "0x00"
      and ?c1.0 = "0x01" and ?c2.0 = "0x00" and ?c3.0 = "0x00" and rest = "map of_nat [0..<256]"]
    shape
  have le: "(258 :: nat) = unat (0x02 :: byte) + 256 * unat (0x01 :: byte) \<and>
     (256 :: nat) = unat (0x00 :: byte) + 256 * unat (0x01 :: byte) + 65536 * unat (0x00 :: byte)
                    + 16777216 * unat (0x00 :: byte) \<and>
     length (map (\<lambda>i. [(''id'', PyInt i)]) [0..<256]) = 256"
    by blast
  with big shape small rest le show ?thesis by blast
qed

subsection \<open>The identity check\<close>

text \<open>
  C3. In a container that decodes, the \<open>id\<close> of the record at position \<open>i\<close> is the integer
  \<open>i\<close>. When the records before position \<open>j\<close> decode and the fields of record \<open>j\<close>
  decode with an \<open>id\<close> that is not \<open>j\<close>, \<open>parse\<close> fails with the offset-mismatch
  \<open>ValueError\<close> that carries \<open>j\<close>, the \<open>id\<close> found and the version; nothing is returned.
\<close>

theorem identity_check:
  "(parse buffer tmpl = Inr (version, count, items) \<longrightarrow>
      (\<forall>i < length items. map_of (items ! i) ''id'' = Some (PyInt i))) \<and>
   (v = from_bytes_little (take 2 buffer) \<and> j < from_bytes_little (take 4 (drop 2 buffer)) \<and>
    parse_items v tmpl [0..<j] [] (drop 6 buffer) = Inr (before, b) \<and>
    parse_fields v j tmpl (new_item tmpl) b = Inr (item, b') \<and>
    map_of item ''id'' = Some a \<and> a \<noteq> PyInt j \<longrightarrow>
      parse buffer tmpl = Inl (ValueError_offset_mismatch j a v))"
proof (intro conjI impI allI)
  fix i
  assume p: "parse buffer tmpl = Inr (version, count, items)" and i: "i < length items"
  from parse_Inr_items(3) [OF p] obtain b where
    its: "parse_items version tmpl [0..<count] [] (drop 6 buffer) = Inr (items, b)" ..
  from parse_items_acc [OF its] have "length items = count" by auto
  with i have "i < length [0..<count]" by simp
  from parse_items_nth [OF its this] i \<open>length items = count\<close>
  obtain b1 b2 where "parse_item version i tmpl b1 = Inr (items ! i, b2)" by auto
  then show "map_of (items ! i) ''id'' = Some (PyInt i)" by (rule parse_item_id)
next
  assume h: "v = from_bytes_little (take 2 buffer) \<and> j < from_bytes_little (take 4 (drop 2 buffer)) \<and>
    parse_items v tmpl [0..<j] [] (drop 6 buffer) = Inr (before, b) \<and>
    parse_fields v j tmpl (new_item tmpl) b = Inr (item, b') \<and>
    map_of item ''id'' = Some a \<and> a \<noteq> PyInt j"
  then have "parse_item v j tmpl b = Inl (ValueError_offset_mismatch j a v)"
    by (auto simp: parse_item_def)
  with h show "parse buffer tmpl = Inl (ValueError_offset_mismatch j a v)"
    by (auto intro: parse_fails_at)
qed

text \<open>
  The container of two records has \<open>id = 1\<close> at position 1; with the \<open>id\<close> of record 1
  set to 2 the decode fails at index 1, expected 1, found 2, version 1.
\<close>

theorem identity_check_witness:
  "parse two_records example_template
     = Inr (1, 2, [[(''id'', PyInt 0), (''flag'', PyInt 5)], [(''id'', PyInt 1), (''flag'', PyInt 7)]]) \<and>
   map_of [(''id'', PyInt 1), (''flag'', PyInt 7)] ''id'' = Some (PyInt 1) \<and>
   1 = from_bytes_little (take 2 drifted_records) \<and>
   1 < from_bytes_little (take 4 (drop 2 drifted_records)) \<and>
   parse_items 1 example_template [0..<1] [] (drop 6 drifted_records)
     = Inr ([[(''id'', PyInt 0), (''flag'', PyInt 5)]], [0x02, 0x00, 0x00, 0x00, 0x07]) \<and>
   parse_fields 1 1 example_template (new_item example_template) [0x02, 0x00, 0x00, 0x00, 0x07]
     = Inr ([(''id'', PyInt 2), (''flag'', PyInt 7)], []) \<and>
   map_of [(''id'', PyInt 2), (''flag'', PyInt 7)] ''id'' = Some (PyInt 2) \<and>
   PyInt 2 \<noteq> PyInt 1 \<and>
   parse drifted_records example_template = Inl (ValueError_offset_mismatch 1 (PyInt 2) 1)"
  using identity_check [where buffer = two_records and tmpl = example_template and version = 1
      and count = 2
      and items = "[[(''id'', PyInt 0), (''flag'', PyInt 5)], [(''id'', PyInt 1), (''flag'', PyInt 7)]]"]
    identity_check [where buffer = drifted_records and tmpl = example_template and v = 1
      and j = 1 and before = "[[(''id'', PyInt 0), (''flag'', PyInt 5)]]"
      and b = "[0x02, 0x00, 0x00, 0x00, 0x07]"
      and item = "[(''id'', PyInt 2), (''flag'', PyInt 7)]" and b' = "[]" and a = "PyInt 2"]
  by (simp add: two_records_def drifted_records_def run_simps)

subsection \<open>When strings are transformed\<close>

text \<open>
  C4. A present string field whose bytes decode to \<open>s\<close> has the value \<open>s\<close> when its
  \<open>_Field\<close> has no XOR key or the version is below 3, and the value
  \<open>_xor_str(s, key, i)\<close> when it has the key \<open>key\<close> and the version is 3 or more; the
  offset \<open>i\<close> is the index of the record, the same the loop over the fields of record
  \<open>i\<close> hands to every field.
\<close>

theorem xor_activation:
  assumes "\<not> f_version f > int version" and "parse_str buffer = Inr (s, rest)"
  shows "parse_field version i k Ann_str f buffer =
           (case f_xor_key f of
              None \<Rightarrow> Inr (PyStr s, rest)
            | Some key \<Rightarrow>
                if version < 3 then Inr (PyStr s, rest)
                else (case xor_str s key (int i) of
                        Inl e \<Rightarrow> Inl e
                      | Inr s' \<Rightarrow> Inr (PyStr s', rest))) \<and>
         parse_fields version i (pre @ (k, Ann_str, f) # post) item b =
           (case parse_fields version i pre item b of
              Inl e \<Rightarrow> Inl e
            | Inr (item1, b1) \<Rightarrow>
                (case parse_field version i k Ann_str f b1 of
                   Inl e \<Rightarrow> Inl e
                 | Inr (v, b2) \<Rightarrow> parse_fields version i post (AList.update k v item1) b2))"
  using assms by (simp only: parse_field_str parse_fields_at simp_thms)

text \<open>
  The name bytes \<open>02 00 68 69\<close> in record 1: the raw \<open>"hi"\<close> under version 2, the
  transform with key \<open>"AB"\<close> and offset 1 under version 3, the raw string again under
  version 3 without a key. In the container of version 3 record 0 is transformed with
  offset 0 and record 1 with offset 1.
\<close>

theorem xor_activation_witness:
  "\<not> f_version (mk_Field (- 1) 1 (Some [65, 66])) > int 2 \<and>
   \<not> f_version (mk_Field (- 1) 1 (Some [65, 66])) > int 3 \<and>
   parse_str [0x02, 0x00, 0x68, 0x69] = Inr ([104, 105], []) \<and>
   parse_field 2 1 ''name'' Ann_str (mk_Field (- 1) 1 (Some [65, 66])) [0x02, 0x00, 0x68, 0x69]
     = Inr (PyStr [104, 105], []) \<and>
   parse_field 3 1 ''name'' Ann_str (mk_Field (- 1) 1 (Some [65, 66])) [0x02, 0x00, 0x68, 0x69]
     = Inr (PyStr [42, 40], []) \<and>
   parse_field 3 1 ''name'' Ann_str (mk_Field (- 1) 1 None) [0x02, 0x00, 0x68, 0x69]
     = Inr (PyStr [104, 105], []) \<and>
   parse named_v2 gated_template
     = Inr (2, 2, [[(''id'', PyInt 0), (''name'', PyStr [104, 105]), (''bonus'', PyNone)],
                   [(''id'', PyInt 1), (''name'', PyStr [104, 105]), (''bonus'', PyNone)]]) \<and>
   parse named_v3 gated_template
     = Inr (3, 2, [[(''id'', PyInt 0), (''name'', PyStr [41, 43]), (''bonus'', PyNone)],
                   [(''id'', PyInt 1), (''name'', PyStr [42, 40]), (''bonus'', PyNone)]])"
  using xor_activation [where f = "mk_Field (- 1) 1 (Some [65, 66])" and version = 2 and i = 1
      and k = "''name''" and buffer = "[0x02, 0x00, 0x68, 0x69]" and s = "[104, 105]"
      and rest = "[]"]
    xor_activation [where f = "mk_Field (- 1) 1 (Some [65, 66])" and version = 3 and i = 1
      and k = "''name''" and buffer = "[0x02, 0x00, 0x68, 0x69]" and s = "[104, 105]"
      and rest = "[]"]
  by (simp add: named_v2_def named_v3_def run_simps run_str_simps)

subsection \<open>Unknown kinds\<close>

text \<open>
  For an annotation with a name that is not \<open>int\<close>, \<open>str\<close> or \<open>None\<close>, a record whose
  earlier fields decode fails with the unknown-field-type \<open>ValueError\<close>.
\<close>

lemma float_template_example:
  "parse [0x01, 0x00, 0x01, 0x00, 0x00, 0x00, 0x00, 0x00, 0x00, 0x00, 0x00, 0x00, 0x00, 0x00]
     float_template = Inl (ValueError_unknown_field_type ''weight'' ''float'')"
  by (simp add: float_template_def run_simps)

text \<open>
  C8 at a template whose field \<open>weight\<close> carries the string annotation \<open>"float"\<close>: building
  the message of the \<open>ValueError\<close> reads \<open>t.__name__\<close>, which a string does not have, and
  the decode ends with \<open>AttributeError\<close>, not with the unknown-field-type \<open>ValueError\<close>.
\<close>

theorem unknown_kind_without_name:
  "parse [0x01, 0x00, 0x01, 0x00, 0x00, 0x00, 0x00, 0x00, 0x00, 0x00, 0x00, 0x00, 0x00, 0x00]
     quoted_template = Inl (AttributeError ''__name__'')"
  by (simp add: quoted_template_def run_simps)

subsection \<open>Ignored fields of dynamic size\<close>

text \<open>
  C9. A present field annotated \<open>None\<close> with \<open>size <= 0\<close> is read by \<open>_parse_str\<close>: it
  takes the length prefix and the bytes, decodes them as UTF-8, and the field is \<open>None\<close>.
  When the bytes are not UTF-8 the field fails with \<open>UnicodeDecodeError\<close>, and so does the
  whole of \<open>parse\<close> when the records and fields before it decode.
\<close>

theorem dynamic_opaque:
  assumes "\<not> f_version f > int version" and "f_size f \<le> 0"
  shows "parse_field version i k Ann_None f buffer =
           (case parse_str buffer of Inl e \<Rightarrow> Inl e | Inr (s, rest) \<Rightarrow> Inr (PyNone, rest)) \<and>
         (length payload < 65536 \<and> utf8_decode payload = None \<longrightarrow>
            parse_field version i k Ann_None f (le16 (length payload) @ payload @ rest)
              = Inl UnicodeDecodeError) \<and>
         (version = from_bytes_little (take 2 container) \<and>
          j < from_bytes_little (take 4 (drop 2 container)) \<and>
          parse_items version (pre @ (k, Ann_None, f) # post) [0..<j] [] (drop 6 container)
            = Inr (before, b) \<and>
          parse_fields version j pre (new_item (pre @ (k, Ann_None, f) # post)) b = Inr (item_pre, b_pre) \<and>
          parse_str b_pre = Inl e \<longrightarrow>
            e = UnicodeDecodeError \<and>
            parse container (pre @ (k, Ann_None, f) # post) = Inl UnicodeDecodeError)"
proof (intro conjI impI)
  show "parse_field version i k Ann_None f buffer =
           (case parse_str buffer of Inl e \<Rightarrow> Inl e | Inr (s, rest) \<Rightarrow> Inr (PyNone, rest))"
    using assms by (rule parse_field_opaque)
next
  assume "length payload < 65536 \<and> utf8_decode payload = None"
  then show "parse_field version i k Ann_None f (le16 (length payload) @ payload @ rest)
              = Inl UnicodeDecodeError"
    by (simp add: parse_field_opaque [OF assms] parse_str_le16)
next
  let ?tmpl = "pre @ (k, Ann_None, f) # post"
  assume h: "version = from_bytes_little (take 2 container) \<and>
          j < from_bytes_little (take 4 (drop 2 container)) \<and>
          parse_items version ?tmpl [0..<j] [] (drop 6 container) = Inr (before, b) \<and>
          parse_fields version j pre (new_item ?tmpl) b = Inr (item_pre, b_pre) \<and>
          parse_str b_pre = Inl e"
  then have v: "version = from_bytes_little (take 2 container)"
    and j: "j < from_bytes_little (take 4 (drop 2 container))"
    and its: "parse_items version ?tmpl [0..<j] [] (drop 6 container) = Inr (before, b)"
    and pre: "parse_fields version j pre (new_item ?tmpl) b = Inr (item_pre, b_pre)"
    and str: "parse_str b_pre = Inl e"
    by blast+
  from str show e: "e = UnicodeDecodeError" by (rule parse_str_error)
  from str e have "parse_field version j k Ann_None f b_pre = Inl UnicodeDecodeError"
    by (simp add: parse_field_opaque [OF assms])
  with pre have "parse_fields version j ?tmpl (new_item ?tmpl) b = Inl UnicodeDecodeError"
    by (rule parse_fields_fails_at)
  then have "parse_item version j ?tmpl b = Inl UnicodeDecodeError"
    by (rule parse_item_fails)
  with j its show "parse container ?tmpl = Inl UnicodeDecodeError"
    unfolding v by (rule parse_fails_at)
qed

text \<open>
  The ignored field over \<open>01 00 41\<close> is \<open>None\<close> and leaves what follows; over
  \<open>01 00 FF\<close> it raises, and the container that holds it does not decode.
\<close>

theorem dynamic_opaque_witness:
  "\<not> f_version (mk_Field (- 1) 1 None) > int 1 \<and> f_size (mk_Field (- 1) 1 None) \<le> 0 \<and>
   parse_field 1 0 ''blob'' Ann_None (mk_Field (- 1) 1 None) [0x01, 0x00, 0x41, 0x07]
     = Inr (PyNone, [0x07]) \<and>
   length [0xFF :: byte] < 65536 \<and> utf8_decode [0xFF] = None \<and>
   le16 (length [0xFF :: byte]) @ [0xFF] @ [] = [0x01, 0x00, 0xFF] \<and>
   parse_field 1 0 ''blob'' Ann_None (mk_Field (- 1) 1 None) [0x01, 0x00, 0xFF]
     = Inl UnicodeDecodeError \<and>
   opaque_template = [(''id'', Ann_int, mk_Field 4 1 None)] @ (''blob'', Ann_None, mk_Field (- 1) 1 None) # [] \<and>
   1 = from_bytes_little (take 2 opaque_bad) \<and>
   0 < from_bytes_little (take 4 (drop 2 opaque_bad)) \<and>
   parse_items 1 opaque_template [0..<0] [] (drop 6 opaque_bad) = Inr ([], drop 6 opaque_bad) \<and>
   parse_fields 1 0 [(''id'', Ann_int, mk_Field 4 1 None)] (new_item opaque_template)
       (drop 6 opaque_bad)
     = Inr ([(''id'', PyInt 0), (''blob'', PyField (mk_Field (- 1) 1 None))], [0x01, 0x00, 0xFF]) \<and>
   parse_str [0x01, 0x00, 0xFF] = Inl UnicodeDecodeError \<and>
   parse opaque_bad opaque_template = Inl UnicodeDecodeError \<and>
   parse opaque_good opaque_template = Inr (1, 1, [[(''id'', PyInt 0), (''blob'', PyNone)]])"
  using dynamic_opaque [where f = "mk_Field (- 1) 1 None" and version = 1 and i = 0
      and k = "''blob''" and buffer = "[0x01, 0x00, 0x41, 0x07]" and payload = "[0xFF]"
      and rest = "[]" and container = opaque_bad and j = 0
      and pre = "[(''id'', Ann_int, mk_Field 4 1 None)]" and post = "[]" and before = "[]"
      and b = "drop 6 opaque_bad"
      and item_pre = "[(''id'', PyInt 0), (''blob'', PyField (mk_Field (- 1) 1 None))]"
      and b_pre = "[0x01, 0x00, 0xFF]" and e = UnicodeDecodeError]
  by (simp add: opaque_bad_def opaque_good_def opaque_template_def le16_def run_simps
      parse_str_def cont_def low6_def)

subsection \<open>A container older than the identity field\<close>

text \<open>
  C10. When the \<open>id\<close> field of the template has a version above the version of the
  container and the container announces at least one record, \<open>parse\<close> never returns a
  container: \<open>id\<close> decodes to \<open>None\<close>, and when the fields of record 0 decode, the check
  at index 0 fails with the offset-mismatch \<open>ValueError\<close> for 0 and \<open>None\<close>. With every
  field of the template above the version, as with \<open>Item\<close> under version 0, that is always
  the error.
\<close>

theorem gated_identity:
  assumes "distinct (map fst tmpl)" and "(''id'', t, f) \<in> set tmpl"
    and "version = from_bytes_little (take 2 buffer)"
    and "f_version f > int version"
    and "1 \<le> from_bytes_little (take 4 (drop 2 buffer))"
  shows "(\<exists>e. parse buffer tmpl = Inl e) \<and>
         (parse_fields version 0 tmpl (new_item tmpl) (drop 6 buffer) = Inr (item, b) \<longrightarrow>
            parse buffer tmpl = Inl (ValueError_offset_mismatch 0 PyNone version)) \<and>
         ((\<forall>(k, t, f) \<in> set tmpl. f_version f > int version) \<longrightarrow>
            parse buffer tmpl = Inl (ValueError_offset_mismatch 0 PyNone version))"
proof -
  note pi = parse_item_gated_id [OF assms(1,2,4), of 0 "drop 6 buffer"]
  have fails: "parse buffer tmpl = Inl e"
    if "parse_item version 0 tmpl (drop 6 buffer) = Inl e" for e
    using assms(5) that unfolding assms(3) by (rule parse_first_record)
  have "\<exists>e. parse_item version 0 tmpl (drop 6 buffer) = Inl e"
    unfolding pi by (auto split: sum.splits)
  then have 1: "\<exists>e. parse buffer tmpl = Inl e" using fails by blast
  have 2: "parse buffer tmpl = Inl (ValueError_offset_mismatch 0 PyNone version)"
    if "parse_fields version 0 tmpl (new_item tmpl) (drop 6 buffer) = Inr (item, b)" for item b
    by (rule fails) (simp add: pi that)
  have 3: "parse buffer tmpl = Inl (ValueError_offset_mismatch 0 PyNone version)"
    if "\<forall>(k, t, f) \<in> set tmpl. f_version f > int version"
    by (rule 2) (rule parse_fields_all_gated [OF that])
  from 1 2 3 show ?thesis by blast
qed

text \<open>
  The default template and the container \<open>00 00 | 01 00 00 00\<close>: version 0, one record
  announced; every field decodes to \<open>None\<close> and the check at index 0 fails.
\<close>

theorem gated_identity_witness:
  "distinct (map fst Item) \<and> (''id'', Ann_int, mk_Field 4 1 None) \<in> set Item \<and>
   0 = from_bytes_little (take 2 [0x00, 0x00, 0x01, 0x00, 0x00, 0x00 :: byte]) \<and>
   f_version (mk_Field 4 1 None) > int 0 \<and>
   1 \<le> from_bytes_little (take 4 (drop 2 [0x00, 0x00, 0x01, 0x00, 0x00, 0x00 :: byte])) \<and>
   list_all (\<lambda>(k, t, f). f_version f > int 0) Item \<and>
   parse_fields 0 0 Item (new_item Item) (drop 6 [0x00, 0x00, 0x01, 0x00, 0x00, 0x00])
     = Inr (map (\<lambda>(k, t, f). (k, PyNone)) Item, []) \<and>
   parse [0x00, 0x00, 0x01, 0x00, 0x00, 0x00] Item = Inl (ValueError_offset_mismatch 0 PyNone 0)"
proof -
  have d: "distinct (map fst Item)" by (rule distinct_Item)
  have i: "(''id'', Ann_int, mk_Field 4 1 None) \<in> set Item" by (simp add: Item_def)
  have v: "0 = from_bytes_little (take 2 [0x00, 0x00, 0x01, 0x00, 0x00, 0x00 :: byte])" by simp
  have f: "f_version (mk_Field 4 1 None) > int 0" by (simp add: mk_Field_def)
  have c: "1 \<le> from_bytes_little (take 4 (drop 2 [0x00, 0x00, 0x01, 0x00, 0x00, 0x00 :: byte]))"
    by simp
  have a: "\<forall>(k, t, f) \<in> set Item. f_version f > int 0" by (rule Item_versions)
  from gated_identity [OF d i v f c] a
  have "parse [0x00, 0x00, 0x01, 0x00, 0x00, 0x00] Item = Inl (ValueError_offset_mismatch 0 PyNone 0)"
    by blast
  moreover have "parse_fields 0 0 Item (new_item Item) (drop 6 [0x00, 0x00, 0x01, 0x00, 0x00, 0x00])
     = Inr (map (\<lambda>(k, t, f). (k, PyNone)) Item, [])"
    by (subst parse_fields_all_gated [OF a]) (simp add: new_item_def Item_def)
  ultimately show ?thesis using d i v f c a by (simp add: list_all_iff)
qed

end
